theory Spec2Isabelle
  imports Main
begin

section \<open>Python values handled by hl_seed_trade.py\<close>

text \<open>
  The script receives the exchange's replies as decoded JSON: dictionaries with string
  keys, lists, strings, integers, floats, booleans and \<open>None\<close>. A dictionary is an
  association list in insertion order, read with \<open>map_of\<close> (a Python dictionary holds
  each key once). A character is a code point below 256. A float is carried by the text
  that Python's \<open>repr\<close> prints for it, which identifies the float; the script never
  computes with one.
\<close>

datatype pyval =
    PNone
  | PBool bool
  | PInt int
  | PFloat string
  | PStr string
  | PList "pyval list"
  | PDict "(string \<times> pyval) list"

text \<open>
  The instances of Python's \<open>Exception\<close> that the script can meet: the built-in errors
  of the operations it applies to a reply, and whatever the client library raises
  (\<open>ClientError\<close>, carrying the text \<open>str(e)\<close> of the exception).
\<close>

datatype py_error =
    AttributeError string
  | TypeError string
  | KeyError pyval
  | IndexError string
  | ClientError string

definition bind_exc :: "py_error + 'a \<Rightarrow> ('a \<Rightarrow> py_error + 'b) \<Rightarrow> py_error + 'b" where
  "bind_exc m f = (case m of Inl e \<Rightarrow> Inl e | Inr x \<Rightarrow> f x)"

subsection \<open>\<open>repr\<close> and \<open>str\<close>\<close>

definition hex_digit :: "nat \<Rightarrow> char" where
  "hex_digit n = (if n < 10 then char_of (48 + n) else char_of (87 + n))"

definition hex2 :: "nat \<Rightarrow> string" where
  "hex2 n = [hex_digit (n div 16), hex_digit (n mod 16)]"

definition backslash :: char where
  "backslash = CHR 0x5C"

definition squote :: char where
  "squote = CHR 0x27"

definition dquote :: char where
  "dquote = CHR 0x22"

text \<open>
  One character inside a string literal whose quote is \<open>q\<close>, as CPython's
  \<open>unicode_repr\<close> writes it: the quote and the backslash are escaped, tab, newline and
  carriage return have their letters, the other control characters and the code points
  of Latin-1 that are not printable (0x7f to 0xa0, and 0xad) are written \<open>\xhh\<close>.
\<close>

definition repr_char :: "char \<Rightarrow> char \<Rightarrow> string" where
  "repr_char q c =
     (let n = (of_char c :: nat) in
      if c = q \<or> c = backslash then [backslash, c]
      else if n = 9 then [backslash, CHR ''t'']
      else if n = 10 then [backslash, CHR ''n'']
      else if n = 13 then [backslash, CHR ''r'']
      else if n < 32 \<or> n = 127 then backslash # CHR ''x'' # hex2 n
      else if n < 127 then [c]
      else if n \<le> 160 \<or> n = 173 then backslash # CHR ''x'' # hex2 n
      else [c])"

text \<open>
  The quote is the single quote, unless the string holds a single quote and no double
  quote.
\<close>

definition repr_quote :: "string \<Rightarrow> char" where
  "repr_quote s = (if squote \<in> set s \<and> dquote \<notin> set s then dquote else squote)"

definition repr_str :: "string \<Rightarrow> string" where
  "repr_str s = (let q = repr_quote s in q # concat (map (repr_char q) s) @ [q])"

function str_nat :: "nat \<Rightarrow> string" where
  "str_nat n = (if n < 10 then [char_of (48 + n)] else str_nat (n div 10) @ [char_of (48 + n mod 10)])"
  by pat_completeness auto
termination
  by (relation "measure id") auto

definition str_int :: "int \<Rightarrow> string" where
  "str_int i = (if i < 0 then CHR ''-'' # str_nat (nat (- i)) else str_nat (nat i))"

text \<open>\<open>', '.join(parts)\<close>.\<close>

fun join_comma :: "string list \<Rightarrow> string" where
  "join_comma [] = []"
| "join_comma [x] = x"
| "join_comma (x # y # ys) = x @ '', '' @ join_comma (y # ys)"

fun py_repr :: "pyval \<Rightarrow> string" where
  "py_repr PNone = ''None''"
| "py_repr (PBool b) = (if b then ''True'' else ''False'')"
| "py_repr (PInt i) = str_int i"
| "py_repr (PFloat t) = t"
| "py_repr (PStr s) = repr_str s"
| "py_repr (PList xs) = ''['' @ join_comma (map py_repr xs) @ '']''"
| "py_repr (PDict kvs) =
     ''{'' @ join_comma (map (\<lambda>(k, v). repr_str k @ '': '' @ py_repr v) kvs) @ ''}''"

text \<open>\<open>str(x)\<close>: a string is itself, every other value is its \<open>repr\<close>.\<close>

definition py_str :: "pyval \<Rightarrow> string" where
  "py_str v = (case v of PStr s \<Rightarrow> s | _ \<Rightarrow> py_repr v)"

text \<open>\<open>str(e)\<close> of an exception; a \<open>KeyError\<close> prints the \<open>repr\<close> of its key.\<close>

definition exc_str :: "py_error \<Rightarrow> string" where
  "exc_str e =
     (case e of
        AttributeError m \<Rightarrow> m
      | TypeError m \<Rightarrow> m
      | KeyError k \<Rightarrow> py_repr k
      | IndexError m \<Rightarrow> m
      | ClientError m \<Rightarrow> m)"

subsection \<open>The operations the script applies to a reply\<close>

text \<open>
  Each is the Python operation on every kind of value, with the error CPython raises
  where the value does not support it. The wording of the messages is that of CPython 3.11;
  no result below depends on it.
\<close>

definition type_name :: "pyval \<Rightarrow> string" where
  "type_name v =
     (case v of
        PNone \<Rightarrow> ''NoneType''
      | PBool _ \<Rightarrow> ''bool''
      | PInt _ \<Rightarrow> ''int''
      | PFloat _ \<Rightarrow> ''float''
      | PStr _ \<Rightarrow> ''str''
      | PList _ \<Rightarrow> ''list''
      | PDict _ \<Rightarrow> ''dict'')"

definition quoted :: "string \<Rightarrow> string" where
  "quoted s = squote # s @ [squote]"

text \<open>\<open>x.get(k, d)\<close>; \<open>x.get(k)\<close> is \<open>py_get x k PNone\<close>. Only a dictionary has the method.\<close>

definition py_get :: "pyval \<Rightarrow> string \<Rightarrow> pyval \<Rightarrow> py_error + pyval" where
  "py_get x k d =
     (case x of
        PDict kvs \<Rightarrow> Inr (case map_of kvs k of None \<Rightarrow> d | Some v \<Rightarrow> v)
      | _ \<Rightarrow> Inl (AttributeError
                 (quoted (type_name x) @ '' object has no attribute '' @ quoted ''get'')))"

text \<open>The truth value of \<open>x\<close> in a condition.\<close>

definition truthy :: "pyval \<Rightarrow> bool" where
  "truthy x =
     (case x of
        PNone \<Rightarrow> False
      | PBool b \<Rightarrow> b
      | PInt i \<Rightarrow> i \<noteq> 0
      | PFloat t \<Rightarrow> t \<noteq> ''0.0'' \<and> t \<noteq> ''-0.0''
      | PStr s \<Rightarrow> s \<noteq> []
      | PList xs \<Rightarrow> xs \<noteq> []
      | PDict kvs \<Rightarrow> kvs \<noteq> [])"

text \<open>
  \<open>x[0]\<close>: the first element of a list, the first character of a string; a dictionary of
  string keys has no key \<open>0\<close>.
\<close>

definition py_index0 :: "pyval \<Rightarrow> py_error + pyval" where
  "py_index0 x =
     (case x of
        PList xs \<Rightarrow>
          (case xs of [] \<Rightarrow> Inl (IndexError ''list index out of range'') | y # _ \<Rightarrow> Inr y)
      | PStr s \<Rightarrow>
          (case s of [] \<Rightarrow> Inl (IndexError ''string index out of range'')
           | c # _ \<Rightarrow> Inr (PStr [c]))
      | PDict _ \<Rightarrow> Inl (KeyError (PInt 0))
      | _ \<Rightarrow> Inl (TypeError (quoted (type_name x) @ '' object is not subscriptable'')))"

fun starts_with :: "string \<Rightarrow> string \<Rightarrow> bool" where
  "starts_with s [] = True"
| "starts_with [] (p # ps) = False"
| "starts_with (c # cs) (p # ps) = (c = p \<and> starts_with cs ps)"

text \<open>\<open>sub in s\<close> on strings: \<open>sub\<close> occurs in \<open>s\<close> as a contiguous run.\<close>

fun contains_str :: "string \<Rightarrow> string \<Rightarrow> bool" where
  "contains_str [] sub = (sub = [])"
| "contains_str (c # cs) sub = (starts_with (c # cs) sub \<or> contains_str cs sub)"

text \<open>
  \<open>k in x\<close> for a string \<open>k\<close>: a key of a dictionary, an element of a list, a substring
  of a string.
\<close>

definition py_contains :: "string \<Rightarrow> pyval \<Rightarrow> py_error + bool" where
  "py_contains k x =
     (case x of
        PDict kvs \<Rightarrow> Inr (map_of kvs k \<noteq> None)
      | PList xs \<Rightarrow> Inr (PStr k \<in> set xs)
      | PStr s \<Rightarrow> Inr (contains_str s k)
      | _ \<Rightarrow> Inl (TypeError
                 (''argument of type '' @ quoted (type_name x) @ '' is not iterable'')))"

text \<open>\<open>x[k]\<close> for a string \<open>k\<close>.\<close>

definition py_getitem :: "pyval \<Rightarrow> string \<Rightarrow> py_error + pyval" where
  "py_getitem x k =
     (case x of
        PDict kvs \<Rightarrow> (case map_of kvs k of None \<Rightarrow> Inl (KeyError (PStr k)) | Some v \<Rightarrow> Inr v)
      | PList _ \<Rightarrow> Inl (TypeError ''list indices must be integers or slices, not str'')
      | PStr _ \<Rightarrow> Inl (TypeError (''string indices must be integers, not '' @ quoted ''str''))
      | _ \<Rightarrow> Inl (TypeError (quoted (type_name x) @ '' object is not subscriptable'')))"

section \<open>parse_order_result\<close>

text \<open>
  \<open>statuses and k in statuses[0]\<close>, the test of each branch of the chain: \<open>statuses[0]\<close>
  is read only when \<open>statuses\<close> is true.
\<close>

definition first_has :: "pyval \<Rightarrow> string \<Rightarrow> py_error + bool" where
  "first_has statuses k =
     (if truthy statuses then bind_exc (py_index0 statuses) (py_contains k) else Inr False)"

text \<open>Lines 99 and 100: \<open>order_result.get("response", {}).get("data", {}).get("statuses", [])\<close>.\<close>

definition get_statuses :: "pyval \<Rightarrow> py_error + pyval" where
  "get_statuses order_result =
     bind_exc (py_get order_result ''response'' (PDict [])) (\<lambda>response.
     bind_exc (py_get response ''data'' (PDict [])) (\<lambda>data.
     py_get data ''statuses'' (PList [])))"

text \<open>Lines 101 to 113: the chain over \<open>statuses\<close>, in the order of the source.\<close>

definition classify_statuses :: "pyval \<Rightarrow> py_error + pyval" where
  "classify_statuses statuses =
     bind_exc (first_has statuses ''filled'') (\<lambda>is_filled.
     if is_filled then
       bind_exc (py_index0 statuses) (\<lambda>s0.
       bind_exc (py_getitem s0 ''filled'') (\<lambda>fill.
       bind_exc (py_get fill ''avgPx'' (PStr ''0'')) (\<lambda>avg_px.
       bind_exc (py_get fill ''totalSz'' (PStr ''0'')) (\<lambda>total_sz.
       Inr (PDict [(''status'', PStr ''filled''),
                   (''avg_price'', avg_px),
                   (''total_size'', total_sz)])))))
     else
       bind_exc (first_has statuses ''resting'') (\<lambda>is_resting.
       if is_resting then
         bind_exc (py_index0 statuses) (\<lambda>s0.
         Inr (PDict [(''status'', PStr ''resting''), (''detail'', PStr (py_str s0))]))
       else
         bind_exc (first_has statuses ''error'') (\<lambda>is_error.
         if is_error then
           bind_exc (py_index0 statuses) (\<lambda>s0.
           bind_exc (py_getitem s0 ''error'') (\<lambda>detail.
           Inr (PDict [(''status'', PStr ''error''),
                       (''step'', PStr ''order_rejected''),
                       (''detail'', detail)])))
         else
           Inr (PDict [(''status'', PStr ''no_fill''), (''detail'', PStr (py_str statuses))]))))"

definition parse_order_result :: "pyval \<Rightarrow> py_error + pyval" where
  "parse_order_result order_result =
     bind_exc (py_get order_result ''status'' PNone) (\<lambda>status.
     if status = PStr ''ok'' then
       bind_exc (get_statuses order_result) classify_statuses
     else
       Inr (PDict [(''status'', PStr ''error''),
                   (''step'', PStr ''place_order''),
                   (''detail'', PStr (py_str order_result))]))"

section \<open>The exchange client and the three actions\<close>

text \<open>
  The parsed command line. \<open>size\<close> and \<open>price\<close> are floats that the script hands to
  the client unread, so their type is left open.
\<close>

record 'f args =
  key :: string
  hl_url :: string
  asset :: string
  leverage :: int
  is_buy :: bool
  size_arg :: 'f
  price :: 'f

text \<open>
  The client library is outside the script. Each of its three entry points either raises
  or returns: \<open>make_exchange\<close> (the key's account and the \<open>Exchange\<close> object),
  \<open>update_leverage\<close> and \<open>order\<close>, both returning the decoded reply.
\<close>

record 'f exchange =
  make_exchange_reply :: "string \<Rightarrow> string \<Rightarrow> py_error + unit"
  update_leverage_reply :: "int \<Rightarrow> string \<Rightarrow> bool \<Rightarrow> py_error + pyval"
  order_reply :: "string \<Rightarrow> bool \<Rightarrow> 'f \<Rightarrow> 'f \<Rightarrow> pyval \<Rightarrow> py_error + pyval"

text \<open>The calls made to the client, in order, are the effect of an action.\<close>

datatype 'f call =
    MakeExchange string string
  | UpdateLeverage int string bool
  | Order string bool 'f 'f pyval

type_synonym ('f, 'a) action = "'f call list \<Rightarrow> (py_error + 'a) \<times> 'f call list"

definition make_exchange :: "'f exchange \<Rightarrow> string \<Rightarrow> string \<Rightarrow> ('f, unit) action" where
  "make_exchange ex k url calls = (make_exchange_reply ex k url, calls @ [MakeExchange k url])"

definition update_leverage :: "'f exchange \<Rightarrow> int \<Rightarrow> string \<Rightarrow> bool \<Rightarrow> ('f, pyval) action" where
  "update_leverage ex lev name is_cross calls =
     (update_leverage_reply ex lev name is_cross, calls @ [UpdateLeverage lev name is_cross])"

definition order :: "'f exchange \<Rightarrow> string \<Rightarrow> bool \<Rightarrow> 'f \<Rightarrow> 'f \<Rightarrow> pyval \<Rightarrow> ('f, pyval) action" where
  "order ex name buy sz px order_type calls =
     (order_reply ex name buy sz px order_type, calls @ [Order name buy sz px order_type])"

text \<open>\<open>{"limit": {"tif": "Ioc"}}\<close>.\<close>

definition ioc :: pyval where
  "ioc = PDict [(''limit'', PDict [(''tif'', PStr ''Ioc'')])]"

text \<open>
  \<open>try: body except Exception as e: return handler(e)\<close>. The calls made before the
  exception stay made.
\<close>

definition try_except ::
  "(py_error + 'a) \<times> 'f call list \<Rightarrow> (py_error \<Rightarrow> 'a) \<Rightarrow> (py_error + 'a) \<times> 'f call list" where
  "try_except body handler =
     (case body of
        (Inl e, calls) \<Rightarrow> (Inr (handler e), calls)
      | (Inr v, calls) \<Rightarrow> (Inr v, calls))"

definition do_set_leverage :: "'f exchange \<Rightarrow> 'f args \<Rightarrow> ('f, pyval) action" where
  "do_set_leverage ex a calls =
     try_except
       (case make_exchange ex (key a) (hl_url a) calls of
          (Inl e, calls1) \<Rightarrow> (Inl e, calls1)
        | (Inr _, calls1) \<Rightarrow>
            (case update_leverage ex (leverage a) (asset a) True calls1 of
               (Inl e, calls2) \<Rightarrow> (Inl e, calls2)
             | (Inr result, calls2) \<Rightarrow>
                 (bind_exc (py_get result ''status'' PNone) (\<lambda>status.
                    if status = PStr ''ok'' then Inr (PDict [(''status'', PStr ''ok'')])
                    else Inr (PDict [(''status'', PStr ''error''),
                                     (''detail'', PStr (py_str result))])),
                  calls2)))
       (\<lambda>e. PDict [(''status'', PStr ''error''), (''detail'', PStr (exc_str e))])"

definition do_seed_trade :: "'f exchange \<Rightarrow> 'f args \<Rightarrow> ('f, pyval) action" where
  "do_seed_trade ex a calls =
     try_except
       (case make_exchange ex (key a) (hl_url a) calls of
          (Inl e, calls1) \<Rightarrow> (Inl e, calls1)
        | (Inr _, calls1) \<Rightarrow>
            (case update_leverage ex (leverage a) (asset a) True calls1 of
               (Inl e, calls2) \<Rightarrow> (Inl e, calls2)
             | (Inr lev_result, calls2) \<Rightarrow>
                 (case py_get lev_result ''status'' PNone of
                    Inl e \<Rightarrow> (Inl e, calls2)
                  | Inr status \<Rightarrow>
                      if status \<noteq> PStr ''ok'' then
                        (Inr (PDict [(''status'', PStr ''error''),
                                     (''step'', PStr ''set_leverage''),
                                     (''detail'', PStr (py_str lev_result))]),
                         calls2)
                      else
                        (case order ex (asset a) (is_buy a) (size_arg a) (price a) ioc calls2 of
                           (Inl e, calls3) \<Rightarrow> (Inl e, calls3)
                         | (Inr order_result, calls3) \<Rightarrow>
                             (parse_order_result order_result, calls3)))))
       (\<lambda>e. PDict [(''status'', PStr ''error''),
                   (''step'', PStr ''exception''),
                   (''detail'', PStr (exc_str e))])"

definition do_close_position :: "'f exchange \<Rightarrow> 'f args \<Rightarrow> ('f, pyval) action" where
  "do_close_position ex a calls =
     try_except
       (case make_exchange ex (key a) (hl_url a) calls of
          (Inl e, calls1) \<Rightarrow> (Inl e, calls1)
        | (Inr _, calls1) \<Rightarrow>
            (case order ex (asset a) (is_buy a) (size_arg a) (price a) ioc calls1 of
               (Inl e, calls2) \<Rightarrow> (Inl e, calls2)
             | (Inr order_result, calls2) \<Rightarrow> (parse_order_result order_result, calls2)))
       (\<lambda>e. PDict [(''status'', PStr ''error''),
                   (''step'', PStr ''exception''),
                   (''detail'', PStr (exc_str e))])"

section \<open>The --is-buy option\<close>

text \<open>
  \<open>str.lower\<close> on code points below 256: the capital letters of ASCII and of Latin-1
  (0xc0 to 0xde, the multiplication sign 0xd7 apart) move up by 32.
\<close>

definition lower_char :: "char \<Rightarrow> char" where
  "lower_char c =
     (let n = (of_char c :: nat) in
      if (65 \<le> n \<and> n \<le> 90) \<or> (192 \<le> n \<and> n \<le> 222 \<and> n \<noteq> 215) then char_of (n + 32) else c)"

definition lower :: "string \<Rightarrow> string" where
  "lower s = map lower_char s"

text \<open>\<open>type=lambda x: x.lower() == "true"\<close>.\<close>

definition is_buy_type :: "string \<Rightarrow> bool" where
  "is_buy_type x = (lower x = ''true'')"

text \<open>
  argparse applies \<open>type\<close> to the text given on the command line; when the option is
  absent the value is \<open>default=True\<close>.
\<close>

definition parse_is_buy :: "string option \<Rightarrow> bool" where
  "parse_is_buy given = (case given of None \<Rightarrow> True | Some x \<Rightarrow> is_buy_type x)"

section \<open>Observations used to state the properties\<close>

text \<open>
  The verdict of a result: its \<open>status\<close> and, when it has one, its \<open>step\<close>. The five
  verdicts of the classifier are filled, resting, error/order_rejected, no_fill and
  error/place_order.
\<close>

definition verdict :: "pyval \<Rightarrow> pyval option \<times> pyval option" where
  "verdict res =
     (case res of PDict kvs \<Rightarrow> (map_of kvs ''status'', map_of kvs ''step'') | _ \<Rightarrow> (None, None))"

definition is_order :: "'f call \<Rightarrow> bool" where
  "is_order c = (case c of Order _ _ _ _ _ \<Rightarrow> True | _ \<Rightarrow> False)"

subsection \<open>Example inputs\<close>

text \<open>
  The command line of the usage text, and four clients: one that refuses the leverage
  update, and one raising at each of the three entry points.
\<close>

definition example_args :: "string args" where
  "example_args =
     \<lparr>key = ''0x01'', hl_url = ''https://api.hyperliquid.xyz'', asset = ''BTC'', leverage = 5,
      is_buy = True, size_arg = ''0.001'', price = ''67000.0''\<rparr>"

definition refusing_exchange :: "string exchange" where
  "refusing_exchange =
     \<lparr>make_exchange_reply = (\<lambda>k url. Inr ()),
      update_leverage_reply = (\<lambda>lev name is_cross.
         Inr (PDict [(''status'', PStr ''err''), (''response'', PStr ''Invalid leverage'')])),
      order_reply = (\<lambda>name buy sz px t.
         Inr (PDict [(''status'', PStr ''ok''),
                     (''response'', PDict [(''data'', PDict [(''statuses'', PList
                        [PDict [(''filled'', PDict [(''avgPx'', PStr ''67010.5''),
                                                    (''totalSz'', PStr ''0.001'')])]])])])]))\<rparr>"

definition unreachable_exchange :: "string exchange" where
  "unreachable_exchange =
     \<lparr>make_exchange_reply = (\<lambda>k url. Inl (ClientError ''Connection refused'')),
      update_leverage_reply = (\<lambda>lev name is_cross. Inr (PDict [(''status'', PStr ''ok'')])),
      order_reply = (\<lambda>name buy sz px t. Inr (PDict [(''status'', PStr ''ok'')]))\<rparr>"

definition leverage_raising_exchange :: "string exchange" where
  "leverage_raising_exchange =
     \<lparr>make_exchange_reply = (\<lambda>k url. Inr ()),
      update_leverage_reply = (\<lambda>lev name is_cross. Inl (ClientError ''Read timed out'')),
      order_reply = (\<lambda>name buy sz px t. Inr (PDict [(''status'', PStr ''ok'')]))\<rparr>"

definition order_raising_exchange :: "string exchange" where
  "order_raising_exchange =
     \<lparr>make_exchange_reply = (\<lambda>k url. Inr ()),
      update_leverage_reply = (\<lambda>lev name is_cross. Inr (PDict [(''status'', PStr ''ok'')])),
      order_reply = (\<lambda>name buy sz px t. Inl (ClientError ''Read timed out''))\<rparr>"

section \<open>Properties of the response classifier\<close>

subsection \<open>Stepping through the classifier\<close>

lemma bind_exc_Inr: "bind_exc (Inr x) f = f x"
  by (simp add: bind_exc_def)

lemma py_get_dict:
  "py_get (PDict kvs) k d = Inr (case map_of kvs k of None \<Rightarrow> d | Some v \<Rightarrow> v)"
  by (simp add: py_get_def)

lemma get_statuses_present:
  assumes "map_of r ''response'' = Some (PDict resp)"
    and "map_of resp ''data'' = Some (PDict data)"
    and "map_of data ''statuses'' = Some statuses"
  shows "get_statuses (PDict r) = Inr statuses"
  using assms by (simp add: get_statuses_def py_get_dict bind_exc_Inr)

lemma parse_ok:
  assumes "map_of r ''status'' = Some (PStr ''ok'')"
  shows "parse_order_result (PDict r) = bind_exc (get_statuses (PDict r)) classify_statuses"
  using assms by (simp add: parse_order_result_def py_get_dict bind_exc_Inr)

lemma parse_not_ok:
  assumes "map_of r ''status'' \<noteq> Some (PStr ''ok'')"
  shows "parse_order_result (PDict r) =
    Inr (PDict [(''status'', PStr ''error''),
                (''step'', PStr ''place_order''),
                (''detail'', PStr (py_str (PDict r)))])"
  using assms
  by (auto simp add: parse_order_result_def py_get_dict bind_exc_Inr split: option.splits)

lemma first_has_dict:
  "first_has (PList (PDict entry # rest)) k = Inr (map_of entry k \<noteq> None)"
  by (simp add: first_has_def truthy_def py_index0_def py_contains_def bind_exc_Inr)

lemma first_has_empty: "first_has (PList []) k = Inr False"
  by (simp add: first_has_def truthy_def)

lemma index0_Cons: "py_index0 (PList (x # xs)) = Inr x"
  by (simp add: py_index0_def)

lemma classify_filled:
  assumes "map_of entry ''filled'' = Some (PDict fill)"
  shows "classify_statuses (PList (PDict entry # rest)) =
    Inr (PDict [(''status'', PStr ''filled''),
                (''avg_price'', case map_of fill ''avgPx'' of None \<Rightarrow> PStr ''0'' | Some v \<Rightarrow> v),
                (''total_size'', case map_of fill ''totalSz'' of None \<Rightarrow> PStr ''0'' | Some v \<Rightarrow> v)])"
  using assms
  by (simp add: classify_statuses_def first_has_dict index0_Cons py_getitem_def py_get_dict
      bind_exc_Inr)

lemma classify_rejected:
  assumes "map_of entry ''error'' = Some detail"
    and "map_of entry ''filled'' = None"
    and "map_of entry ''resting'' = None"
  shows "classify_statuses (PList (PDict entry # rest)) =
    Inr (PDict [(''status'', PStr ''error''),
                (''step'', PStr ''order_rejected''),
                (''detail'', detail)])"
  using assms
  by (simp add: classify_statuses_def first_has_dict index0_Cons py_getitem_def bind_exc_Inr)

lemma classify_empty:
  "classify_statuses (PList []) =
     Inr (PDict [(''status'', PStr ''no_fill''), (''detail'', PStr ''[]'')])"
  by (simp add: classify_statuses_def first_has_empty bind_exc_Inr py_str_def)

lemma classify_unrecognised:
  assumes "map_of entry ''filled'' = None"
    and "map_of entry ''resting'' = None"
    and "map_of entry ''error'' = None"
  shows "classify_statuses (PList (PDict entry # rest)) =
    Inr (PDict [(''status'', PStr ''no_fill''),
                (''detail'', PStr (py_str (PList (PDict entry # rest))))])"
  using assms by (simp add: classify_statuses_def first_has_dict bind_exc_Inr)

lemmas repr_defs =
  py_str_def repr_str_def repr_quote_def repr_char_def squote_def dquote_def backslash_def Let_def

subsection \<open>A filled order\<close>

text \<open>
  Claim C3. For every order-placement response that is a dictionary whose \<open>status\<close> is
  \<open>"ok"\<close> and whose first per-order status entry holds a \<open>filled\<close> sub-record, the
  classifier returns \<open>{"status": "filled", "avg_price": a, "total_size": t}\<close>, where
  \<open>a\<close> is the sub-record's \<open>avgPx\<close>, or \<open>"0"\<close> when it has none, and \<open>t\<close> its
  \<open>totalSz\<close>, or \<open>"0"\<close> when it has none. The witness is the response of the spec's
  example, \<open>{"status":"ok","response":{"data":{"statuses":[{"filled":{"avgPx":"67010.5",
  "totalSz":"0.001"}}]}}}\<close>, which yields \<open>{"status":"filled","avg_price":"67010.5",
  "total_size":"0.001"}\<close>.
\<close>

theorem parse_order_result_filled:
  assumes "map_of r ''status'' = Some (PStr ''ok'')"
    and "map_of r ''response'' = Some (PDict resp)"
    and "map_of resp ''data'' = Some (PDict data)"
    and "map_of data ''statuses'' = Some (PList (PDict entry # rest))"
    and "map_of entry ''filled'' = Some (PDict fill)"
  shows "parse_order_result (PDict r) =
    Inr (PDict [(''status'', PStr ''filled''),
                (''avg_price'', case map_of fill ''avgPx'' of None \<Rightarrow> PStr ''0'' | Some v \<Rightarrow> v),
                (''total_size'', case map_of fill ''totalSz'' of None \<Rightarrow> PStr ''0'' | Some v \<Rightarrow> v)])"
  by (simp add: parse_ok [OF assms(1)] get_statuses_present [OF assms(2,3,4)] bind_exc_Inr
      classify_filled [OF assms(5)])

theorem parse_order_result_filled_witness:
  "parse_order_result
     (PDict [(''status'', PStr ''ok''),
             (''response'', PDict [(''data'', PDict [(''statuses'',
                PList [PDict [(''filled'', PDict [(''avgPx'', PStr ''67010.5''),
                                                  (''totalSz'', PStr ''0.001'')])]])])])]) =
   Inr (PDict [(''status'', PStr ''filled''),
               (''avg_price'', PStr ''67010.5''),
               (''total_size'', PStr ''0.001'')])"
proof -
  let ?fill = "[(''avgPx'', PStr ''67010.5''), (''totalSz'', PStr ''0.001'')]"
  let ?entry = "[(''filled'', PDict ?fill)]"
  let ?data = "[(''statuses'', PList [PDict ?entry])]"
  let ?resp = "[(''data'', PDict ?data)]"
  let ?r = "[(''status'', PStr ''ok''), (''response'', PDict ?resp)]"
  have "map_of ?r ''status'' = Some (PStr ''ok'')"
    and "map_of ?r ''response'' = Some (PDict ?resp)"
    and "map_of ?resp ''data'' = Some (PDict ?data)"
    and "map_of ?data ''statuses'' = Some (PList (PDict ?entry # []))"
    and "map_of ?entry ''filled'' = Some (PDict ?fill)"
    by simp_all
  from parse_order_result_filled [OF this] show ?thesis by simp
qed

subsection \<open>A rejected order\<close>

text \<open>
  Claim C4. For every order-placement response that is a dictionary whose \<open>status\<close> is
  \<open>"ok"\<close> and whose first per-order status entry has the key \<open>error\<close> and neither
  \<open>filled\<close> nor \<open>resting\<close>, the classifier returns \<open>{"status": "error", "step":
  "order_rejected", "detail": d}\<close>, where \<open>d\<close> is the value under \<open>error\<close>, unchanged.
  The witness is the spec's example: \<open>{"status":"ok","response":{"data":{"statuses":
  [{"error":"Order could not be fully filled"}]}}}\<close> yields \<open>{"status":"error",
  "step":"order_rejected","detail":"Order could not be fully filled"}\<close>.
\<close>

theorem parse_order_result_rejected:
  assumes "map_of r ''status'' = Some (PStr ''ok'')"
    and "map_of r ''response'' = Some (PDict resp)"
    and "map_of resp ''data'' = Some (PDict data)"
    and "map_of data ''statuses'' = Some (PList (PDict entry # rest))"
    and "map_of entry ''error'' = Some detail"
    and "map_of entry ''filled'' = None"
    and "map_of entry ''resting'' = None"
  shows "parse_order_result (PDict r) =
    Inr (PDict [(''status'', PStr ''error''),
                (''step'', PStr ''order_rejected''),
                (''detail'', detail)])"
  by (simp add: parse_ok [OF assms(1)] get_statuses_present [OF assms(2,3,4)] bind_exc_Inr
      classify_rejected [OF assms(5,6,7)])

theorem parse_order_result_rejected_witness:
  "parse_order_result
     (PDict [(''status'', PStr ''ok''),
             (''response'', PDict [(''data'', PDict [(''statuses'',
                PList [PDict [(''error'', PStr ''Order could not be fully filled'')]])])])]) =
   Inr (PDict [(''status'', PStr ''error''),
               (''step'', PStr ''order_rejected''),
               (''detail'', PStr ''Order could not be fully filled'')])"
proof -
  let ?entry = "[(''error'', PStr ''Order could not be fully filled'')]"
  let ?data = "[(''statuses'', PList [PDict ?entry])]"
  let ?resp = "[(''data'', PDict ?data)]"
  let ?r = "[(''status'', PStr ''ok''), (''response'', PDict ?resp)]"
  have "map_of ?r ''status'' = Some (PStr ''ok'')"
    and "map_of ?r ''response'' = Some (PDict ?resp)"
    and "map_of ?resp ''data'' = Some (PDict ?data)"
    and "map_of ?data ''statuses'' = Some (PList (PDict ?entry # []))"
    and "map_of ?entry ''error'' = Some (PStr ''Order could not be fully filled'')"
    and "map_of ?entry ''filled'' = None"
    and "map_of ?entry ''resting'' = None"
    by simp_all
  from parse_order_result_rejected [OF this] show ?thesis by simp
qed

subsection \<open>A response that is not ok\<close>

text \<open>
  Claim C5. For every order-placement response that is a dictionary whose \<open>status\<close> is
  absent or is not \<open>"ok"\<close>, the classifier returns \<open>{"status": "error", "step":
  "place_order", "detail": str(response)}\<close>, whatever else the response holds.
\<close>

theorem parse_order_result_not_ok:
  assumes "map_of r ''status'' \<noteq> Some (PStr ''ok'')"
  shows "parse_order_result (PDict r) =
    Inr (PDict [(''status'', PStr ''error''),
                (''step'', PStr ''place_order''),
                (''detail'', PStr (py_str (PDict r)))])"
  using assms by (rule parse_not_ok)

theorem parse_order_result_not_ok_witness:
  "parse_order_result
     (PDict [(''status'', PStr ''err''), (''response'', PStr ''Invalid leverage'')]) =
   Inr (PDict [(''status'', PStr ''error''),
               (''step'', PStr ''place_order''),
               (''detail'', PStr ''{'status': 'err', 'response': 'Invalid leverage'}'')])
   \<and> parse_order_result (PDict [(''response'', PDict [])]) =
   Inr (PDict [(''status'', PStr ''error''),
               (''step'', PStr ''place_order''),
               (''detail'', PStr ''{'response': {}}'')])"
proof -
  let ?r = "[(''status'', PStr ''err''), (''response'', PStr ''Invalid leverage'')]"
  let ?q = "[(''response'', PDict [])]"
  have r: "map_of ?r ''status'' \<noteq> Some (PStr ''ok'')" by simp
  have q: "map_of ?q ''status'' \<noteq> Some (PStr ''ok'')" by simp
  have sr: "py_str (PDict ?r) = ''{'status': 'err', 'response': 'Invalid leverage'}''"
    by (simp add: repr_defs)
  have sq: "py_str (PDict ?q) = ''{'response': {}}''"
    by (simp add: repr_defs)
  from parse_order_result_not_ok [OF r] parse_order_result_not_ok [OF q] show ?thesis
    by (simp only: sr sq)
qed

subsection \<open>No fill\<close>



subsection \<open>Missing levels\<close>

text \<open>
  Claim C10. For every order-placement response that is a dictionary whose \<open>status\<close> is
  \<open>"ok"\<close> and that has no \<open>response\<close> key, or whose \<open>response\<close> dictionary has no
  \<open>data\<close> key, or whose \<open>data\<close> dictionary has no \<open>statuses\<close> key, the classifier
  raises nothing and returns \<open>{"status": "no_fill", "detail": "[]"}\<close>: each missing level
  reads as empty.
\<close>

theorem parse_order_result_missing_levels:
  assumes "map_of r ''status'' = Some (PStr ''ok'')"
    and "map_of r ''response'' = None \<or>
         (\<exists>resp. map_of r ''response'' = Some (PDict resp) \<and>
            (map_of resp ''data'' = None \<or>
             (\<exists>data. map_of resp ''data'' = Some (PDict data) \<and>
                map_of data ''statuses'' = None)))"
  shows "parse_order_result (PDict r) =
    Inr (PDict [(''status'', PStr ''no_fill''), (''detail'', PStr ''[]'')])"
proof -
  from assms(2) have "get_statuses (PDict r) = Inr (PList [])"
    by (auto simp add: get_statuses_def py_get_dict bind_exc_Inr)
  then show ?thesis
    by (simp add: parse_ok [OF assms(1)] bind_exc_Inr classify_empty)
qed

theorem parse_order_result_missing_levels_witness:
  "parse_order_result (PDict [(''status'', PStr ''ok'')]) =
     Inr (PDict [(''status'', PStr ''no_fill''), (''detail'', PStr ''[]'')])
   \<and> parse_order_result (PDict [(''status'', PStr ''ok''), (''response'', PDict [])]) =
     Inr (PDict [(''status'', PStr ''no_fill''), (''detail'', PStr ''[]'')])
   \<and> parse_order_result
       (PDict [(''status'', PStr ''ok''), (''response'', PDict [(''data'', PDict [])])]) =
     Inr (PDict [(''status'', PStr ''no_fill''), (''detail'', PStr ''[]'')])"
proof -
  let ?a = "[(''status'', PStr ''ok'')]"
  let ?b = "[(''status'', PStr ''ok''), (''response'', PDict [])]"
  let ?c = "[(''status'', PStr ''ok''), (''response'', PDict [(''data'', PDict [])])]"
  have a: "map_of ?a ''status'' = Some (PStr ''ok'')"
    and b: "map_of ?b ''status'' = Some (PStr ''ok'')"
    and c: "map_of ?c ''status'' = Some (PStr ''ok'')"
    by simp_all
  have ma: "map_of ?a ''response'' = None \<or>
      (\<exists>resp. map_of ?a ''response'' = Some (PDict resp) \<and>
         (map_of resp ''data'' = None \<or>
          (\<exists>data. map_of resp ''data'' = Some (PDict data) \<and> map_of data ''statuses'' = None)))"
    by simp
  have mb: "map_of ?b ''response'' = None \<or>
      (\<exists>resp. map_of ?b ''response'' = Some (PDict resp) \<and>
         (map_of resp ''data'' = None \<or>
          (\<exists>data. map_of resp ''data'' = Some (PDict data) \<and> map_of data ''statuses'' = None)))"
    by simp
  have mc: "map_of ?c ''response'' = None \<or>
      (\<exists>resp. map_of ?c ''response'' = Some (PDict resp) \<and>
         (map_of resp ''data'' = None \<or>
          (\<exists>data. map_of resp ''data'' = Some (PDict data) \<and> map_of data ''statuses'' = None)))"
    by simp
  from parse_order_result_missing_levels [OF a ma]
       parse_order_result_missing_levels [OF b mb]
       parse_order_result_missing_levels [OF c mc]
  show ?thesis by simp
qed

subsection \<open>Only the first entry decides\<close>

lemma classify_first_only:
  "map_sum id verdict (classify_statuses (PList (x # xs))) =
   map_sum id verdict (classify_statuses (PList [x]))"
  by (auto simp add: classify_statuses_def first_has_def truthy_def index0_Cons bind_exc_def
      verdict_def split: sum.splits)

text \<open>
  Claim C8. The classification reads only the first entry of the per-order status list.
  For any two order-placement responses (dictionaries whose \<open>response.data.statuses\<close> is
  a list, or defaults to the empty one) that agree on the top-level \<open>status\<close> and on the
  first entry of the list, the classifier gives the same verdict, or raises the same
  exception; entries after the first never change it.
\<close>

theorem verdict_first_entry_only:
  assumes "map_of r1 ''status'' = map_of r2 ''status''"
    and "get_statuses (PDict r1) = Inr (PList l1)"
    and "get_statuses (PDict r2) = Inr (PList l2)"
    and "take 1 l1 = take 1 l2"
  shows "map_sum id verdict (parse_order_result (PDict r1)) =
         map_sum id verdict (parse_order_result (PDict r2))"
proof (cases "map_of r1 ''status'' = Some (PStr ''ok'')")
  case True
  with assms(1) have ok2: "map_of r2 ''status'' = Some (PStr ''ok'')" by simp
  have "map_sum id verdict (classify_statuses (PList l1)) =
        map_sum id verdict (classify_statuses (PList l2))"
  proof (cases l1)
    case Nil
    with assms(4) have "l2 = []" by (cases l2) auto
    with Nil show ?thesis by simp
  next
    case (Cons x xs)
    with assms(4) obtain ys where "l2 = x # ys" by (cases l2) auto
    with Cons show ?thesis
      using classify_first_only [of x xs] classify_first_only [of x ys] by simp
  qed
  then show ?thesis
    by (simp add: parse_ok [OF True] parse_ok [OF ok2] assms(2,3) bind_exc_Inr)
next
  case False
  with assms(1) have "map_of r2 ''status'' \<noteq> Some (PStr ''ok'')" by simp
  with False show ?thesis
    by (simp add: parse_not_ok verdict_def)
qed

theorem verdict_first_entry_only_witness:
  "map_sum id verdict (parse_order_result
     (PDict [(''status'', PStr ''ok''),
             (''response'', PDict [(''data'', PDict [(''statuses'',
                PList [PDict [(''resting'', PDict [(''oid'', PInt 77)])]])])])])) =
   map_sum id verdict (parse_order_result
     (PDict [(''status'', PStr ''ok''),
             (''response'', PDict [(''data'', PDict [(''statuses'',
                PList [PDict [(''resting'', PDict [(''oid'', PInt 77)])],
                       PDict [(''filled'', PDict [(''avgPx'', PStr ''67010.5'')])],
                       PDict [(''error'', PStr ''Order could not be fully filled'')]])])])]))"
proof -
  let ?e = "PDict [(''resting'', PDict [(''oid'', PInt 77)])]"
  let ?l1 = "[?e]"
  let ?l2 = "[?e, PDict [(''filled'', PDict [(''avgPx'', PStr ''67010.5'')])],
              PDict [(''error'', PStr ''Order could not be fully filled'')]]"
  let ?r1 = "[(''status'', PStr ''ok''),
              (''response'', PDict [(''data'', PDict [(''statuses'', PList ?l1)])])]"
  let ?r2 = "[(''status'', PStr ''ok''),
              (''response'', PDict [(''data'', PDict [(''statuses'', PList ?l2)])])]"
  have s: "map_of ?r1 ''status'' = map_of ?r2 ''status''" by simp
  have g1: "get_statuses (PDict ?r1) = Inr (PList ?l1)"
    by (simp add: get_statuses_def py_get_dict bind_exc_Inr)
  have g2: "get_statuses (PDict ?r2) = Inr (PList ?l2)"
    by (simp add: get_statuses_def py_get_dict bind_exc_Inr)
  have t: "take 1 ?l1 = take 1 ?l2" by simp
  from verdict_first_entry_only [OF s g1 g2 t] show ?thesis .
qed

subsection \<open>The detail of a no_fill result\<close>

lemma starts_with_append: "starts_with (b @ c) b"
  by (induction b) auto

lemma contains_str_append: "starts_with s b \<Longrightarrow> contains_str (a @ s) b"
proof (induction a)
  case Nil
  then show ?case by (cases s; cases b) auto
next
  case (Cons x a)
  then show ?case by simp
qed

lemma contains_str_middle: "contains_str (a @ b @ c) b"
  by (simp add: contains_str_append starts_with_append)

lemma join_comma_Cons: "join_comma (x # xs) = (if xs = [] then x else x @ '', '' @ join_comma xs)"
  by (cases xs) auto

lemma join_comma_member:
  "x \<in> set xs \<Longrightarrow> \<exists>a c. join_comma (map f xs) = a @ f x @ c"
proof (induction xs)
  case Nil
  then show ?case by simp
next
  case (Cons y ys)
  show ?case
  proof (cases "x = y")
    case True
    have "join_comma (map f (y # ys)) =
        [] @ f y @ (if ys = [] then [] else '', '' @ join_comma (map f ys))"
      by (simp add: join_comma_Cons)
    with True show ?thesis by blast
  next
    case False
    with Cons.prems have "x \<in> set ys" by simp
    with Cons.IH obtain a c where ac: "join_comma (map f ys) = a @ f x @ c" by blast
    from \<open>x \<in> set ys\<close> have "ys \<noteq> []" by auto
    then have "join_comma (map f (y # ys)) = (f y @ '', '' @ a) @ f x @ c"
      by (simp add: join_comma_Cons ac)
    then show ?thesis by blast
  qed
qed

lemma py_str_list_contains:
  assumes "x \<in> set xs"
  shows "contains_str (py_str (PList xs)) (py_repr x)"
proof -
  from join_comma_member [OF assms, of py_repr]
  obtain a c where "join_comma (map py_repr xs) = a @ py_repr x @ c" by blast
  then have "py_str (PList xs) = (''['' @ a) @ py_repr x @ (c @ '']'')"
    by (simp add: py_str_def)
  then show ?thesis by (simp only: contains_str_middle)
qed

text \<open>
  Claim C9. In the no_fill branch the \<open>detail\<close> is \<open>str\<close> of the whole per-order status
  list: an opening bracket, the \<open>repr\<close> of every entry joined by a comma and a space, a
  closing bracket. So the \<open>repr\<close> of each entry after the first occurs in the detail,
  although the verdict no_fill does not depend on those entries.
\<close>

theorem no_fill_detail_whole_list:
  assumes "map_of r ''status'' = Some (PStr ''ok'')"
    and "get_statuses (PDict r) = Inr (PList (PDict entry # rest))"
    and "map_of entry ''filled'' = None"
    and "map_of entry ''resting'' = None"
    and "map_of entry ''error'' = None"
  shows "parse_order_result (PDict r) =
           Inr (PDict [(''status'', PStr ''no_fill''),
                       (''detail'',
                        PStr (''['' @ join_comma (map py_repr (PDict entry # rest)) @ '']''))])
         \<and> (\<forall>x \<in> set rest.
              contains_str (''['' @ join_comma (map py_repr (PDict entry # rest)) @ '']'')
                (py_repr x))"
proof -
  have s: "py_str (PList (PDict entry # rest)) =
      ''['' @ join_comma (map py_repr (PDict entry # rest)) @ '']''"
    by (simp add: py_str_def)
  have "parse_order_result (PDict r) =
      Inr (PDict [(''status'', PStr ''no_fill''),
                  (''detail'', PStr (py_str (PList (PDict entry # rest))))])"
    by (simp add: parse_ok [OF assms(1)] assms(2) bind_exc_Inr
        classify_unrecognised [OF assms(3,4,5)])
  moreover have "\<forall>x \<in> set rest. contains_str (py_str (PList (PDict entry # rest))) (py_repr x)"
    by (simp add: py_str_list_contains)
  ultimately show ?thesis by (simp only: s)
qed

theorem no_fill_detail_whole_list_witness:
  "parse_order_result
     (PDict [(''status'', PStr ''ok''),
             (''response'', PDict [(''data'', PDict [(''statuses'',
                PList [PDict [(''waiting'', PStr ''trigger'')],
                       PDict [(''filled'', PDict [])]])])])]) =
   Inr (PDict [(''status'', PStr ''no_fill''),
               (''detail'', PStr ''[{'waiting': 'trigger'}, {'filled': {}}]'')])
   \<and> contains_str ''[{'waiting': 'trigger'}, {'filled': {}}]'' ''{'filled': {}}''"
proof -
  let ?entry = "[(''waiting'', PStr ''trigger'')]"
  let ?second = "PDict [(''filled'', PDict [])]"
  let ?r = "[(''status'', PStr ''ok''),
             (''response'', PDict [(''data'', PDict [(''statuses'',
                PList [PDict ?entry, ?second])])])]"
  have ok: "map_of ?r ''status'' = Some (PStr ''ok'')" by simp
  have g: "get_statuses (PDict ?r) = Inr (PList (PDict ?entry # [?second]))"
    by (simp add: get_statuses_def py_get_dict bind_exc_Inr)
  have k: "map_of ?entry ''filled'' = None" "map_of ?entry ''resting'' = None"
    "map_of ?entry ''error'' = None"
    by simp_all
  have d: "''['' @ join_comma (map py_repr (PDict ?entry # [?second])) @ '']'' =
      ''[{'waiting': 'trigger'}, {'filled': {}}]''"
    by (simp add: repr_defs)
  have x: "py_repr ?second = ''{'filled': {}}''"
    by (simp add: repr_defs)
  from no_fill_detail_whole_list [OF ok g k] show ?thesis
    unfolding d by (simp add: x)
qed

section \<open>Properties of the actions\<close>

subsection \<open>seed_trade after a refused leverage update\<close>

lemma seed_trade_leverage_refused:
  assumes "make_exchange_reply ex (key a) (hl_url a) = Inr u"
    and "update_leverage_reply ex (leverage a) (asset a) True = Inr (PDict lev)"
    and "map_of lev ''status'' \<noteq> Some (PStr ''ok'')"
  shows "do_seed_trade ex a calls =
    (Inr (PDict [(''status'', PStr ''error''),
                 (''step'', PStr ''set_leverage''),
                 (''detail'', PStr (py_str (PDict lev)))]),
     calls @ [MakeExchange (key a) (hl_url a), UpdateLeverage (leverage a) (asset a) True])"
  using assms
  by (auto simp add: do_seed_trade_def try_except_def make_exchange_def update_leverage_def
      py_get_dict split: option.splits)

text \<open>
  Claim C1. In \<open>seed_trade\<close>, when the client is built and the leverage update returns a
  dictionary whose \<open>status\<close> is not \<open>"ok"\<close>, the result is exactly \<open>{"status": "error",
  "step": "set_leverage", "detail": str(lev_result)}\<close>, with no order-related field, and
  the calls made are the construction of the client and the leverage update: \<open>order\<close> is
  never called. The witness is the spec's example: the reply \<open>{"status":"err","response":
  "Invalid leverage"}\<close> gives the detail \<open>{'status': 'err', 'response': 'Invalid
  leverage'}\<close>.
\<close>

theorem seed_trade_stops_after_failed_leverage:
  assumes "make_exchange_reply ex (key a) (hl_url a) = Inr u"
    and "update_leverage_reply ex (leverage a) (asset a) True = Inr (PDict lev)"
    and "map_of lev ''status'' \<noteq> Some (PStr ''ok'')"
  shows "do_seed_trade ex a calls =
           (Inr (PDict [(''status'', PStr ''error''),
                        (''step'', PStr ''set_leverage''),
                        (''detail'', PStr (py_str (PDict lev)))]),
            calls @ [MakeExchange (key a) (hl_url a), UpdateLeverage (leverage a) (asset a) True])
         \<and> filter is_order (drop (length calls) (snd (do_seed_trade ex a calls))) = []"
  by (simp add: seed_trade_leverage_refused [OF assms] is_order_def)

theorem seed_trade_stops_after_failed_leverage_witness:
  "do_seed_trade refusing_exchange example_args [] =
     (Inr (PDict [(''status'', PStr ''error''),
                  (''step'', PStr ''set_leverage''),
                  (''detail'', PStr ''{'status': 'err', 'response': 'Invalid leverage'}'')]),
      [MakeExchange ''0x01'' ''https://api.hyperliquid.xyz'', UpdateLeverage 5 ''BTC'' True])"
proof -
  let ?lev = "[(''status'', PStr ''err''), (''response'', PStr ''Invalid leverage'')]"
  have m: "make_exchange_reply refusing_exchange (key example_args) (hl_url example_args) = Inr ()"
    by (simp add: refusing_exchange_def)
  have l: "update_leverage_reply refusing_exchange (leverage example_args) (asset example_args)
      True = Inr (PDict ?lev)"
    by (simp add: refusing_exchange_def)
  have s: "map_of ?lev ''status'' \<noteq> Some (PStr ''ok'')" by simp
  have d: "py_str (PDict ?lev) = ''{'status': 'err', 'response': 'Invalid leverage'}''"
    by (simp add: repr_defs)
  from seed_trade_stops_after_failed_leverage [OF m l s, of "[]"] show ?thesis
    by (simp add: d example_args_def)
qed

subsection \<open>Exceptions of the client\<close>

lemma try_except_returns: "\<exists>res. fst (try_except body handler) = Inr res"
  by (cases body) (auto simp add: try_except_def split: sum.splits)

lemma set_leverage_make_raises:
  "make_exchange_reply ex (key a) (hl_url a) = Inl e \<Longrightarrow>
   fst (do_set_leverage ex a calls) =
     Inr (PDict [(''status'', PStr ''error''), (''detail'', PStr (exc_str e))])"
  by (simp add: do_set_leverage_def try_except_def make_exchange_def)

lemma set_leverage_update_raises:
  "make_exchange_reply ex (key a) (hl_url a) = Inr u \<Longrightarrow>
   update_leverage_reply ex (leverage a) (asset a) True = Inl e \<Longrightarrow>
   fst (do_set_leverage ex a calls) =
     Inr (PDict [(''status'', PStr ''error''), (''detail'', PStr (exc_str e))])"
  by (simp add: do_set_leverage_def try_except_def make_exchange_def update_leverage_def)

lemma seed_trade_make_raises:
  "make_exchange_reply ex (key a) (hl_url a) = Inl e \<Longrightarrow>
   fst (do_seed_trade ex a calls) =
     Inr (PDict [(''status'', PStr ''error''), (''step'', PStr ''exception''),
                 (''detail'', PStr (exc_str e))])"
  by (simp add: do_seed_trade_def try_except_def make_exchange_def)

lemma seed_trade_update_raises:
  "make_exchange_reply ex (key a) (hl_url a) = Inr u \<Longrightarrow>
   update_leverage_reply ex (leverage a) (asset a) True = Inl e \<Longrightarrow>
   fst (do_seed_trade ex a calls) =
     Inr (PDict [(''status'', PStr ''error''), (''step'', PStr ''exception''),
                 (''detail'', PStr (exc_str e))])"
  by (simp add: do_seed_trade_def try_except_def make_exchange_def update_leverage_def)

lemma seed_trade_order_raises:
  "make_exchange_reply ex (key a) (hl_url a) = Inr u \<Longrightarrow>
   update_leverage_reply ex (leverage a) (asset a) True = Inr (PDict lev) \<Longrightarrow>
   map_of lev ''status'' = Some (PStr ''ok'') \<Longrightarrow>
   order_reply ex (asset a) (is_buy a) (size_arg a) (price a) ioc = Inl e \<Longrightarrow>
   fst (do_seed_trade ex a calls) =
     Inr (PDict [(''status'', PStr ''error''), (''step'', PStr ''exception''),
                 (''detail'', PStr (exc_str e))])"
  by (simp add: do_seed_trade_def try_except_def make_exchange_def update_leverage_def
      order_def py_get_dict)

lemma close_position_make_raises:
  "make_exchange_reply ex (key a) (hl_url a) = Inl e \<Longrightarrow>
   fst (do_close_position ex a calls) =
     Inr (PDict [(''status'', PStr ''error''), (''step'', PStr ''exception''),
                 (''detail'', PStr (exc_str e))])"
  by (simp add: do_close_position_def try_except_def make_exchange_def)

lemma close_position_order_raises:
  "make_exchange_reply ex (key a) (hl_url a) = Inr u \<Longrightarrow>
   order_reply ex (asset a) (is_buy a) (size_arg a) (price a) ioc = Inl e \<Longrightarrow>
   fst (do_close_position ex a calls) =
     Inr (PDict [(''status'', PStr ''error''), (''step'', PStr ''exception''),
                 (''detail'', PStr (exc_str e))])"
  by (simp add: do_close_position_def try_except_def make_exchange_def order_def)

text \<open>
  Claim C7. For each of the three actions and every exception \<open>e\<close> (an instance of
  \<open>Exception\<close>, which is what the handlers catch) raised by the construction of the
  client or by a remote call, the action returns a result whose \<open>status\<close> is \<open>"error"\<close>
  and whose \<open>detail\<close> is \<open>str(e)\<close>, with \<open>"step": "exception"\<close> for \<open>seed_trade\<close> and
  \<open>close_position\<close> and with no \<open>step\<close> for \<open>set_leverage\<close>. The four implications
  are the places where a call can raise: the construction, the leverage update, the order
  of \<open>seed_trade\<close> (reached after an ok leverage reply) and the order of
  \<open>close_position\<close>. The last three conjuncts say that no exception leaves an action,
  whatever the client does.
\<close>

theorem actions_catch_exceptions:
  "(make_exchange_reply ex (key a) (hl_url a) = Inl e \<longrightarrow>
      fst (do_set_leverage ex a calls) =
        Inr (PDict [(''status'', PStr ''error''), (''detail'', PStr (exc_str e))]) \<and>
      fst (do_seed_trade ex a calls) =
        Inr (PDict [(''status'', PStr ''error''), (''step'', PStr ''exception''),
                    (''detail'', PStr (exc_str e))]) \<and>
      fst (do_close_position ex a calls) =
        Inr (PDict [(''status'', PStr ''error''), (''step'', PStr ''exception''),
                    (''detail'', PStr (exc_str e))]))
   \<and> (make_exchange_reply ex (key a) (hl_url a) = Inr u \<and>
      update_leverage_reply ex (leverage a) (asset a) True = Inl e \<longrightarrow>
      fst (do_set_leverage ex a calls) =
        Inr (PDict [(''status'', PStr ''error''), (''detail'', PStr (exc_str e))]) \<and>
      fst (do_seed_trade ex a calls) =
        Inr (PDict [(''status'', PStr ''error''), (''step'', PStr ''exception''),
                    (''detail'', PStr (exc_str e))]))
   \<and> (make_exchange_reply ex (key a) (hl_url a) = Inr u \<and>
      update_leverage_reply ex (leverage a) (asset a) True = Inr (PDict lev) \<and>
      map_of lev ''status'' = Some (PStr ''ok'') \<and>
      order_reply ex (asset a) (is_buy a) (size_arg a) (price a) ioc = Inl e \<longrightarrow>
      fst (do_seed_trade ex a calls) =
        Inr (PDict [(''status'', PStr ''error''), (''step'', PStr ''exception''),
                    (''detail'', PStr (exc_str e))]))
   \<and> (make_exchange_reply ex (key a) (hl_url a) = Inr u \<and>
      order_reply ex (asset a) (is_buy a) (size_arg a) (price a) ioc = Inl e \<longrightarrow>
      fst (do_close_position ex a calls) =
        Inr (PDict [(''status'', PStr ''error''), (''step'', PStr ''exception''),
                    (''detail'', PStr (exc_str e))]))
   \<and> (\<exists>res. fst (do_set_leverage ex a calls) = Inr res)
   \<and> (\<exists>res. fst (do_seed_trade ex a calls) = Inr res)
   \<and> (\<exists>res. fst (do_close_position ex a calls) = Inr res)"
proof -
  have "\<exists>res. fst (do_set_leverage ex a calls) = Inr res"
    unfolding do_set_leverage_def by (rule try_except_returns)
  moreover have "\<exists>res. fst (do_seed_trade ex a calls) = Inr res"
    unfolding do_seed_trade_def by (rule try_except_returns)
  moreover have "\<exists>res. fst (do_close_position ex a calls) = Inr res"
    unfolding do_close_position_def by (rule try_except_returns)
  ultimately show ?thesis
    using set_leverage_make_raises [of ex a e calls] set_leverage_update_raises [of ex a u e calls]
      seed_trade_make_raises [of ex a e calls] seed_trade_update_raises [of ex a u e calls]
      seed_trade_order_raises [of ex a u lev e calls]
      close_position_make_raises [of ex a e calls] close_position_order_raises [of ex a u e calls]
    by blast
qed

theorem actions_catch_exceptions_witness:
  "fst (do_set_leverage unreachable_exchange example_args []) =
     Inr (PDict [(''status'', PStr ''error''), (''detail'', PStr ''Connection refused'')])
   \<and> fst (do_seed_trade unreachable_exchange example_args []) =
     Inr (PDict [(''status'', PStr ''error''), (''step'', PStr ''exception''),
                 (''detail'', PStr ''Connection refused'')])
   \<and> fst (do_close_position unreachable_exchange example_args []) =
     Inr (PDict [(''status'', PStr ''error''), (''step'', PStr ''exception''),
                 (''detail'', PStr ''Connection refused'')])
   \<and> fst (do_set_leverage leverage_raising_exchange example_args []) =
     Inr (PDict [(''status'', PStr ''error''), (''detail'', PStr ''Read timed out'')])
   \<and> fst (do_seed_trade leverage_raising_exchange example_args []) =
     Inr (PDict [(''status'', PStr ''error''), (''step'', PStr ''exception''),
                 (''detail'', PStr ''Read timed out'')])
   \<and> fst (do_seed_trade order_raising_exchange example_args []) =
     Inr (PDict [(''status'', PStr ''error''), (''step'', PStr ''exception''),
                 (''detail'', PStr ''Read timed out'')])
   \<and> fst (do_close_position order_raising_exchange example_args []) =
     Inr (PDict [(''status'', PStr ''error''), (''step'', PStr ''exception''),
                 (''detail'', PStr ''Read timed out'')])"
proof -
  let ?ok = "[(''status'', PStr ''ok'')]"
  have m1: "make_exchange_reply unreachable_exchange (key example_args) (hl_url example_args) =
      Inl (ClientError ''Connection refused'')"
    by (simp add: unreachable_exchange_def)
  have m2: "make_exchange_reply leverage_raising_exchange (key example_args)
      (hl_url example_args) = Inr ()"
    and l2: "update_leverage_reply leverage_raising_exchange (leverage example_args)
      (asset example_args) True = Inl (ClientError ''Read timed out'')"
    by (simp_all add: leverage_raising_exchange_def)
  have m3: "make_exchange_reply order_raising_exchange (key example_args) (hl_url example_args) =
      Inr ()"
    and l3: "update_leverage_reply order_raising_exchange (leverage example_args)
      (asset example_args) True = Inr (PDict ?ok)"
    and o3: "order_reply order_raising_exchange (asset example_args) (is_buy example_args)
      (size_arg example_args) (price example_args) ioc = Inl (ClientError ''Read timed out'')"
    by (simp_all add: order_raising_exchange_def)
  have s3: "map_of ?ok ''status'' = Some (PStr ''ok'')" by simp
  have e1: "exc_str (ClientError ''Connection refused'') = ''Connection refused''"
    and e2: "exc_str (ClientError ''Read timed out'') = ''Read timed out''"
    by (simp_all add: exc_str_def)
  from actions_catch_exceptions
         [of unreachable_exchange example_args "ClientError ''Connection refused''" "[]"]
       actions_catch_exceptions
         [of leverage_raising_exchange example_args "ClientError ''Read timed out''" "[]" "()"]
       actions_catch_exceptions
         [of order_raising_exchange example_args "ClientError ''Read timed out''" "[]" "()" ?ok]
       m1 m2 l2 m3 l3 o3 s3
  show ?thesis
    unfolding e1 e2 by blast
qed

section \<open>Properties of the --is-buy option\<close>

text \<open>
  Claim C2, as amended. Omitting \<open>--is-buy\<close> yields the buy side (\<open>True\<close>); passing
  \<open>false\<close> in any letter case yields the sell side (\<open>False\<close>); and passing any string
  other than \<open>true\<close> (in any letter case) yields the sell side (\<open>False\<close>), since the
  value is the comparison of the lower-cased text with \<open>"true"\<close>.
\<close>

theorem is_buy_option:
  "parse_is_buy None = True
   \<and> (lower x = ''false'' \<longrightarrow> parse_is_buy (Some x) = False)
   \<and> (lower x \<noteq> ''true'' \<longrightarrow> parse_is_buy (Some x) = False)"
  by (simp add: parse_is_buy_def is_buy_type_def)

theorem is_buy_option_witness:
  "lower ''FaLsE'' = ''false'' \<and> parse_is_buy (Some ''FaLsE'') = False
   \<and> lower ''yes'' \<noteq> ''true'' \<and> parse_is_buy (Some ''yes'') = False"
proof -
  have a: "lower ''FaLsE'' = ''false''" by code_simp
  have b: "lower ''FaLsE'' \<noteq> ''true''" by code_simp
  have c: "lower ''yes'' \<noteq> ''true''" by code_simp
  from is_buy_option [of "''FaLsE''"] is_buy_option [of "''yes''"] a b c show ?thesis by blast
qed

text \<open>
  The claim as first stated has any string other than \<open>true\<close> yield the buy side. The
  text \<open>yes\<close> is not \<open>true\<close> in any letter case, and the option parses to \<open>False\<close>.
\<close>

theorem is_buy_other_string_counterexample:
  "lower ''yes'' \<noteq> ''true'' \<and> parse_is_buy (Some ''yes'') \<noteq> True"
  by code_simp

lemma is_buy_true_any_case: "lower x = ''true'' \<Longrightarrow> parse_is_buy (Some x)"
  by (simp add: parse_is_buy_def is_buy_type_def)

end
